theory Spec2Isabelle
  imports Main "HOL-Library.Sublist"
begin

section \<open>taskmd: Tekton task manifests rendered as Markdown\<close>

text \<open>
  The repository holds two programs that share their rendering functions word for word:
  \<^item> \<^verbatim>\<open>src/main.go\<close>, the file-based pipeline: \<^verbatim>\<open>LoadAllTasks\<close> reads and decodes
    the files named on the command line, \<^verbatim>\<open>GenerateMarkdownToDirectory\<close> renders each task
    and \<^verbatim>\<open>writeGenerateMarkdown\<close> writes \<^verbatim>\<open>taskmd.out/<name>/README.md\<close> and a copy of the
    manifest;
  \<^item> \<^verbatim>\<open>src/unnamed/part_000\<close>, the resource-set pipeline: \<^verbatim>\<open>GetAllTasksFromResourceMap\<close>
    scans the resources of a kustomize build and \<^verbatim>\<open>writeGenerateMarkdown\<close> writes
    \<^verbatim>\<open>taskmd.out/<name>.md\<close>.
  Definitions translated from \<^verbatim>\<open>src/main.go\<close> carry the name of the Go function;
  those translated from \<^verbatim>\<open>src/unnamed/part_000\<close> carry the suffix \<open>_rs\<close> where the
  name is taken already.
\<close>

subsection \<open>Errors\<close>

text \<open>
  A Go \<^verbatim>\<open>error\<close> value. \<open>ErrorString\<close> is what \<^verbatim>\<open>fmt.Errorf\<close> builds from a format
  without verbs, \<open>PathError op path\<close> is what package \<^verbatim>\<open>os\<close> returns, \<open>DecodeError\<close> is
  what the YAML and JSON decoders return.
\<close>

datatype error =
    ErrorString string
  | PathError string string
  | DecodeError string

subsection \<open>The task records\<close>

text \<open>
  Modelled from the spec: the types of the Tekton pipeline API
  (\<^verbatim>\<open>github.com/tektoncd/pipeline/pkg/apis/pipeline/v1\<close>), which the sources import and
  do not contain. Each record has the fields that the sources read, under the names the
  sources read them by: \<^verbatim>\<open>param.Type\<close>, \<^verbatim>\<open>param.StringVal\<close>, \<^verbatim>\<open>param.ArrayVal\<close>,
  \<^verbatim>\<open>workspace.Optional\<close>, \<^verbatim>\<open>task.Spec.Params\<close> and so on. The default of a parameter is a
  pointer in Go (\<^verbatim>\<open>*ParamValue\<close>), so it is an option here and \<open>None\<close> is \<^verbatim>\<open>nil\<close>. The
  spec's \<open>String(s)\<close>, \<open>Array(items)\<close> and \<open>Object(map)\<close> are the values whose \<open>Type\<close>
  is \<open>''string''\<close>, \<open>''array''\<close> and \<open>''object''\<close>.
\<close>

record ParamValue =
  Type :: string
  StringVal :: string
  ArrayVal :: "string list"
  ObjectVal :: "string \<rightharpoonup> string"

record ParamSpec =
  Name :: string
  Description :: string
  Default :: "ParamValue option"

record WorkspaceDeclaration =
  Name :: string
  Description :: string
  Optional :: bool

record TaskResult =
  Name :: string
  Description :: string

record TaskSpec =
  Params :: "ParamSpec list"
  Description :: string
  Workspaces :: "WorkspaceDeclaration list"
  Results :: "TaskResult list"

record Task =
  Name :: string
  Spec :: TaskSpec

text \<open>\<^verbatim>\<open>type TaskBundle struct { path string; task pipepinev1.Task }\<close> (main.go, line 12).\<close>

record TaskBundle =
  path :: string
  task :: Task

subsection \<open>Library functions: fmt.Sprintf and strings.Builder\<close>

text \<open>
  \<^verbatim>\<open>fmt.Sprintf\<close> for the one verb the sources use, \<^verbatim>\<open>%v\<close>, whose operands are all Go
  strings in these programs and print as they are. A verb without an operand prints
  \<^verbatim>\<open>%!v(MISSING)\<close> and operands left over are listed after \<^verbatim>\<open>%!(EXTRA\<close>, as in Go; no
  call of the sources reaches either case.
\<close>

fun Sprintf_extra :: "string list \<Rightarrow> string" where
  "Sprintf_extra [] = []"
| "Sprintf_extra [a] = ''string='' @ a"
| "Sprintf_extra (a # b # as) = ''string='' @ a @ '', '' @ Sprintf_extra (b # as)"

fun Sprintf :: "string \<Rightarrow> string list \<Rightarrow> string" where
  "Sprintf (c # d # fs) args =
     (if c = CHR ''%'' \<and> d = CHR ''v''
      then (case args of
              [] \<Rightarrow> ''%!v(MISSING)'' @ Sprintf fs []
            | a # as \<Rightarrow> a @ Sprintf fs as)
      else c # Sprintf (d # fs) args)"
| "Sprintf fs args =
     (if args = [] then fs else fs @ ''%!(EXTRA '' @ Sprintf_extra args @ '')'')"

text \<open>
  A \<^verbatim>\<open>strings.Builder\<close> is the text written so far. \<^verbatim>\<open>WriteString\<close> appends and, as its
  documentation says, always returns a nil error; the sources test the error all the
  same, and so does the model.
\<close>

type_synonym Builder = string

definition Builder_WriteString :: "Builder \<Rightarrow> string \<Rightarrow> error + Builder" where
  "Builder_WriteString stringBuilder s = Inr (stringBuilder @ s)"

subsection \<open>stringifyParam (main.go, lines 258 to 297)\<close>

text \<open>
  The loop of the \<^verbatim>\<open>"array"\<close> case: \<open>n\<close> is \<^verbatim>\<open>len(param.ArrayVal)\<close>, \<open>i\<close> the index of
  the element at the head of the list.
\<close>

fun stringifyParam_loop :: "int \<Rightarrow> int \<Rightarrow> string list \<Rightarrow> Builder \<Rightarrow> error + Builder" where
  "stringifyParam_loop n i [] stringBuilder = Inr stringBuilder"
| "stringifyParam_loop n i (s # rest) stringBuilder =
     (let formatString = (if i = n - 1 then ''%v, '' else ''%v'') in
      case Builder_WriteString stringBuilder (Sprintf formatString [s]) of
        Inl err \<Rightarrow> Inl err
      | Inr sb \<Rightarrow> stringifyParam_loop n (i + 1) rest sb)"

text \<open>
  The body of the \<^verbatim>\<open>"array"\<close> case (lines 267 to 291): the local builder after
  \<^verbatim>\<open>"["\<close>, the elements and \<^verbatim>\<open>"]"\<close> have been written to it.
\<close>

definition stringifyParam_array :: "ParamValue \<Rightarrow> error + Builder" where
  "stringifyParam_array param =
     (case Builder_WriteString [] ''['' of
        Inl err \<Rightarrow> Inl err
      | Inr sb1 \<Rightarrow>
     (case stringifyParam_loop (int (length (ArrayVal param))) 0 (ArrayVal param) sb1 of
        Inl err \<Rightarrow> Inl err
      | Inr sb2 \<Rightarrow> Builder_WriteString sb2 '']''))"

text \<open>
  The \<^verbatim>\<open>"string"\<close> and \<^verbatim>\<open>"object"\<close> cases return from inside the switch. The
  \<^verbatim>\<open>"array"\<close> case has no return statement: after its last write, control leaves the
  switch and reaches the final \<^verbatim>\<open>return "", nil\<close> of the function, as it does for a type
  that matches no case.
\<close>

definition stringifyParam :: "ParamValue option \<Rightarrow> error + string" where
  "stringifyParam param =
     (case param of
        None \<Rightarrow> Inl (ErrorString ''cannot stringify nil param value'')
      | Some p \<Rightarrow>
          if Type p = ''string'' then Inr (StringVal p)
          else if Type p = ''array'' then
            (case stringifyParam_array p of
               Inl err \<Rightarrow> Inl err
             | Inr sb \<Rightarrow> Inr [])
          else if Type p = ''object'' then Inr ''{}''
          else Inr [])"

subsection \<open>The rendering functions of main.go (lines 155 to 256)\<close>

text \<open>
  Each Go function takes the builder by pointer and returns an error. The model takes the
  builder's text and returns the error or the new text.
\<close>

definition generateHeader :: "TaskBundle \<Rightarrow> Builder \<Rightarrow> error + Builder" where
  "generateHeader taskBundle stringBuilder =
     (case Builder_WriteString stringBuilder
             (Sprintf ''# `%v`\<newline>\<newline>'' [Task.Name (task taskBundle)]) of
        Inl err \<Rightarrow> Inl err
      | Inr sb \<Rightarrow> Inr sb)"

definition generateDescription :: "TaskBundle \<Rightarrow> Builder \<Rightarrow> error + Builder" where
  "generateDescription taskBundle stringBuilder =
     (case Builder_WriteString stringBuilder (TaskSpec.Description (Spec (task taskBundle))) of
        Inl err \<Rightarrow> Inl err
      | Inr sb1 \<Rightarrow>
     (case Builder_WriteString sb1 ''\<newline>\<newline>'' of
        Inl err \<Rightarrow> Inl err
      | Inr sb2 \<Rightarrow> Inr sb2))"

fun generateInputs_loop :: "ParamSpec list \<Rightarrow> Builder \<Rightarrow> error + Builder" where
  "generateInputs_loop [] stringBuilder = Inr stringBuilder"
| "generateInputs_loop (param # rest) stringBuilder =
     (case Default param of
        Some d \<Rightarrow>
          (case stringifyParam (Some d) of
             Inl err \<Rightarrow> Inl err
           | Inr paramString \<Rightarrow>
          (case Builder_WriteString stringBuilder
                  (Sprintf ''* **%v**: %v `(Default: %v)`\<newline>''
                     [ParamSpec.Name param, ParamSpec.Description param, paramString]) of
             Inl err \<Rightarrow> Inl err
           | Inr sb \<Rightarrow> generateInputs_loop rest sb))
      | None \<Rightarrow>
          (case Builder_WriteString stringBuilder
                  (Sprintf ''* **%v**: %v\<newline>''
                     [ParamSpec.Name param, ParamSpec.Description param]) of
             Inl err \<Rightarrow> Inl err
           | Inr sb \<Rightarrow> generateInputs_loop rest sb))"

definition generateInputs :: "TaskBundle \<Rightarrow> Builder \<Rightarrow> error + Builder" where
  "generateInputs taskBundle stringBuilder =
     (case Builder_WriteString stringBuilder ''## Parameters\<newline>'' of
        Inl err \<Rightarrow> Inl err
      | Inr sb1 \<Rightarrow>
     (case generateInputs_loop (Params (Spec (task taskBundle))) sb1 of
        Inl err \<Rightarrow> Inl err
      | Inr sb2 \<Rightarrow>
     (case Builder_WriteString sb2 ''\<newline>'' of
        Inl err \<Rightarrow> Inl err
      | Inr sb3 \<Rightarrow> Inr sb3)))"

fun generateWorkspaces_loop :: "WorkspaceDeclaration list \<Rightarrow> Builder \<Rightarrow> error + Builder" where
  "generateWorkspaces_loop [] stringBuilder = Inr stringBuilder"
| "generateWorkspaces_loop (workspace # rest) stringBuilder =
     (let formatString =
            (if Optional workspace then ''* **%v** (optional): %v\<newline>''
             else ''* **%v**: %v\<newline>'') in
      case Builder_WriteString stringBuilder
             (Sprintf formatString
                [WorkspaceDeclaration.Name workspace,
                 WorkspaceDeclaration.Description workspace]) of
        Inl err \<Rightarrow> Inl err
      | Inr sb \<Rightarrow> generateWorkspaces_loop rest sb)"

definition generateWorkspaces :: "TaskBundle \<Rightarrow> Builder \<Rightarrow> error + Builder" where
  "generateWorkspaces taskBundle stringBuilder =
     (case Builder_WriteString stringBuilder ''## Workspaces\<newline>'' of
        Inl err \<Rightarrow> Inl err
      | Inr sb1 \<Rightarrow>
     (case generateWorkspaces_loop (Workspaces (Spec (task taskBundle))) sb1 of
        Inl err \<Rightarrow> Inl err
      | Inr sb2 \<Rightarrow>
     (case Builder_WriteString sb2 ''\<newline>'' of
        Inl err \<Rightarrow> Inl err
      | Inr sb3 \<Rightarrow> Inr sb3)))"

fun generateResults_loop :: "TaskResult list \<Rightarrow> Builder \<Rightarrow> error + Builder" where
  "generateResults_loop [] stringBuilder = Inr stringBuilder"
| "generateResults_loop (result # rest) stringBuilder =
     (case Builder_WriteString stringBuilder
             (Sprintf ''* **%v**: %v\<newline>''
                [TaskResult.Name result, TaskResult.Description result]) of
        Inl err \<Rightarrow> Inl err
      | Inr sb \<Rightarrow> generateResults_loop rest sb)"

definition generateResults :: "TaskBundle \<Rightarrow> Builder \<Rightarrow> error + Builder" where
  "generateResults taskBundle stringBuilder =
     (case Builder_WriteString stringBuilder ''## Results\<newline>'' of
        Inl err \<Rightarrow> Inl err
      | Inr sb1 \<Rightarrow> generateResults_loop (Results (Spec (task taskBundle))) sb1)"

text \<open>
  Lines 81 to 105, the first part of the loop body of \<^verbatim>\<open>GenerateMarkdownToDirectory\<close>: a
  fresh builder goes through the five rendering functions. Its text is the document that
  \<^verbatim>\<open>writeGenerateMarkdown\<close> then receives.
\<close>

definition GenerateMarkdownToDirectory_render :: "TaskBundle \<Rightarrow> error + Builder" where
  "GenerateMarkdownToDirectory_render taskBundle =
     (case generateHeader taskBundle [] of
        Inl err \<Rightarrow> Inl err
      | Inr sb1 \<Rightarrow>
     (case generateDescription taskBundle sb1 of
        Inl err \<Rightarrow> Inl err
      | Inr sb2 \<Rightarrow>
     (case generateInputs taskBundle sb2 of
        Inl err \<Rightarrow> Inl err
      | Inr sb3 \<Rightarrow>
     (case generateWorkspaces taskBundle sb3 of
        Inl err \<Rightarrow> Inl err
      | Inr sb4 \<Rightarrow>
     (case generateResults taskBundle sb4 of
        Inl err \<Rightarrow> Inl err
      | Inr sb5 \<Rightarrow> Inr sb5)))))"

subsection \<open>The file system\<close>

text \<open>
  Package \<^verbatim>\<open>os\<close> is outside the repository. Its file system is modelled by a record:
  \<^item> \<open>files\<close> maps the key of a regular file to its bytes, \<open>dirs\<close> is the set of keys of
    directories (the working directory, key \<open>[]\<close>, always exists);
  \<^item> \<open>faulty\<close> is a set of keys on which every operation fails, and stands for
    permission and device errors; \<open>nospace\<close> says that the device is full, so that
    writing a non-empty byte string fails.
  A path names the file that its cleaned list of components is the key of: empty
  components and \<^verbatim>\<open>.\<close> are dropped and \<^verbatim>\<open>..\<close> removes the component before it, as
  \<^verbatim>\<open>filepath.Clean\<close> does. Symbolic and hard links are outside the model, and so is the
  fact that an absolute and a relative path may name one file. An operation that fails
  leaves the file system as it was. \<^verbatim>\<open>os.RemoveAll\<close> removes the path and all below it,
  and returns no error for a path that does not exist; the sources call it on
  \<^verbatim>\<open>taskmd.out\<close> only.
\<close>

record FS =
  files :: "string list \<rightharpoonup> string"
  dirs :: "string list set"
  faulty :: "string list set"
  nospace :: bool

fun split_slash :: "string \<Rightarrow> string \<Rightarrow> string list" where
  "split_slash acc [] = [acc]"
| "split_slash acc (c # cs) =
     (if c = CHR ''/'' then acc # split_slash [] cs else split_slash (acc @ [c]) cs)"

definition clean_step :: "string list \<Rightarrow> string \<Rightarrow> string list" where
  "clean_step st part =
     (if part = [] \<or> part = ''.'' then st
      else if part = ''..'' then
        (if st = [] \<or> last st = ''..'' then st @ [part]
         else if last st = ''/'' then st
         else butlast st)
      else st @ [part])"

definition path_key :: "string \<Rightarrow> string list" where
  "path_key name =
     foldl clean_step (if take 1 name = ''/'' then [''/''] else []) (split_slash [] name)"

text \<open>
  The name that \<^verbatim>\<open>os.Stat(name)\<close> reports: trailing slashes are removed (the first
  character stays), then everything up to the last slash.
\<close>

definition basename :: "string \<Rightarrow> string" where
  "basename name =
     (let r = dropWhile (\<lambda>c. c = CHR ''/'') (rev name);
          trimmed = (if r = [] then take 1 name else rev r)
      in if trimmed = ''/'' then ''/''
         else rev (takeWhile (\<lambda>c. c \<noteq> CHR ''/'') (rev trimmed)))"

definition is_dir :: "FS \<Rightarrow> string list \<Rightarrow> bool" where
  "is_dir fs k = (k = [] \<or> k \<in> dirs fs)"

definition os_ReadFile :: "FS \<Rightarrow> string \<Rightarrow> error + string" where
  "os_ReadFile fs name =
     (if path_key name \<in> faulty fs then Inl (PathError ''open'' name)
      else case files fs (path_key name) of
             None \<Rightarrow> Inl (PathError ''open'' name)
           | Some bytes \<Rightarrow> Inr bytes)"



definition os_MkdirAll :: "string \<Rightarrow> FS \<Rightarrow> error + FS" where
  "os_MkdirAll name fs =
     (if list_ex (\<lambda>k. k \<in> faulty fs \<or> files fs k \<noteq> None) (prefixes (path_key name))
      then Inl (PathError ''mkdir'' name)
      else Inr (fs\<lparr>dirs := dirs fs \<union> set (prefixes (path_key name))\<rparr>))"

text \<open>
  \<^verbatim>\<open>os.Create\<close> creates the file or truncates it, and needs the directory above it. The
  handle it returns (\<^verbatim>\<open>*os.File\<close>) is the key of the file. A write appends to the file:
  the sources write once to each handle, right after creating it.
\<close>

type_synonym File = "string list"

definition os_Create :: "string \<Rightarrow> FS \<Rightarrow> error + (File \<times> FS)" where
  "os_Create name fs =
     (if path_key name \<in> faulty fs \<or> is_dir fs (path_key name)
         \<or> \<not> is_dir fs (butlast (path_key name))
      then Inl (PathError ''open'' name)
      else Inr (path_key name, fs\<lparr>files := (files fs)(path_key name \<mapsto> [])\<rparr>))"

definition File_Write :: "File \<Rightarrow> string \<Rightarrow> FS \<Rightarrow> error + FS" where
  "File_Write file bytes fs =
     (if file \<in> faulty fs \<or> (nospace fs \<and> bytes \<noteq> [])
      then Inl (PathError ''write'' (concat (map (\<lambda>c. CHR ''/'' # c) file)))
      else case files fs file of
             None \<Rightarrow> Inl (PathError ''write'' (concat (map (\<lambda>c. CHR ''/'' # c) file)))
           | Some old \<Rightarrow> Inr (fs\<lparr>files := (files fs)(file \<mapsto> old @ bytes)\<rparr>))"

definition File_WriteString :: "File \<Rightarrow> string \<Rightarrow> FS \<Rightarrow> error + FS" where
  "File_WriteString file s fs = File_Write file s fs"

subsection \<open>The file-based pipeline (main.go, lines 29 to 153)\<close>

text \<open>
  \<^verbatim>\<open>LoadAllTasks\<close> returns a slice and an error. The slice is \<open>None\<close> where the Go code
  returns \<^verbatim>\<open>nil\<close>. The YAML decoder is outside the repository and is a parameter:
  \<open>yaml_Unmarshal bytes\<close> is the task that \<^verbatim>\<open>yaml.Unmarshal(bytes, &task)\<close> leaves in a
  fresh \<^verbatim>\<open>task\<close>, or its error.
\<close>

fun LoadAllTasks_loop ::
  "(string \<Rightarrow> error + Task) \<Rightarrow> FS \<Rightarrow> string list \<Rightarrow> TaskBundle list
     \<Rightarrow> TaskBundle list option \<times> error option" where
  "LoadAllTasks_loop yaml_Unmarshal fs [] tasks = (Some tasks, None)"
| "LoadAllTasks_loop yaml_Unmarshal fs (p # rest) tasks =
     (case os_ReadFile fs p of
        Inl err \<Rightarrow> (None, Some err)
      | Inr bytes \<Rightarrow>
     (case yaml_Unmarshal bytes of
        Inl err \<Rightarrow> (None, Some err)
      | Inr t \<Rightarrow>
          LoadAllTasks_loop yaml_Unmarshal fs rest (tasks @ [\<lparr>path = p, task = t\<rparr>])))"

definition LoadAllTasks ::
  "(string \<Rightarrow> error + Task) \<Rightarrow> FS \<Rightarrow> string list
     \<Rightarrow> TaskBundle list option \<times> error option" where
  "LoadAllTasks yaml_Unmarshal fs paths = LoadAllTasks_loop yaml_Unmarshal fs paths []"






subsection \<open>The resource-set pipeline (part_000, lines 64 to 153)\<close>

text \<open>
  Modelled from the spec: a resource of the kustomize build
  (\<^verbatim>\<open>sigs.k8s.io/kustomize/api/resource\<close>, outside the repository), "a set of resources with
  associated kind metadata" and "a JSON-serialization capability per resource". \<open>GetKind\<close>
  is what \<^verbatim>\<open>res.GetKind()\<close> returns and \<open>MarshalJSON\<close> what \<^verbatim>\<open>resource.MarshalJSON()\<close>
  returns. A \<^verbatim>\<open>resmap.ResMap\<close> is the list that its method \<^verbatim>\<open>Resources()\<close> returns. The
  JSON decoder is a parameter, as the YAML decoder is above.
\<close>

record Resource =
  GetKind :: string
  MarshalJSON :: "error + string"

definition ResourceToType :: "(string \<Rightarrow> error + Task) \<Rightarrow> Resource \<Rightarrow> error + Task" where
  "ResourceToType json_Unmarshal resource =
     (case MarshalJSON resource of
        Inl err \<Rightarrow> Inl err
      | Inr bytes \<Rightarrow>
     (case json_Unmarshal bytes of
        Inl err \<Rightarrow> Inl err
      | Inr t \<Rightarrow> Inr t))"

text \<open>
  \<^verbatim>\<open>GetAllTasksFromResourceMap\<close> returns the slice \<^verbatim>\<open>tasks\<close> on every path, also beside an
  error.
\<close>

fun GetAllTasksFromResourceMap_loop ::
  "(string \<Rightarrow> error + Task) \<Rightarrow> Resource list \<Rightarrow> Task list \<Rightarrow> Task list \<times> error option" where
  "GetAllTasksFromResourceMap_loop json_Unmarshal [] tasks = (tasks, None)"
| "GetAllTasksFromResourceMap_loop json_Unmarshal (res # rest) tasks =
     (if GetKind res \<noteq> ''Task'' then (tasks, None)
      else case ResourceToType json_Unmarshal res of
             Inl err \<Rightarrow> (tasks, Some err)
           | Inr t \<Rightarrow> GetAllTasksFromResourceMap_loop json_Unmarshal rest (tasks @ [t]))"

definition GetAllTasksFromResourceMap ::
  "(string \<Rightarrow> error + Task) \<Rightarrow> Resource list \<Rightarrow> Task list \<times> error option" where
  "GetAllTasksFromResourceMap json_Unmarshal resourceMap =
     GetAllTasksFromResourceMap_loop json_Unmarshal resourceMap []"

subsection \<open>The rendering functions of part_000 (lines 155 to 297)\<close>

fun stringifyParam_loop_rs :: "int \<Rightarrow> int \<Rightarrow> string list \<Rightarrow> Builder \<Rightarrow> error + Builder" where
  "stringifyParam_loop_rs n i [] stringBuilder = Inr stringBuilder"
| "stringifyParam_loop_rs n i (s # rest) stringBuilder =
     (let formatString = (if i = n - 1 then ''%v, '' else ''%v'') in
      case Builder_WriteString stringBuilder (Sprintf formatString [s]) of
        Inl err \<Rightarrow> Inl err
      | Inr sb \<Rightarrow> stringifyParam_loop_rs n (i + 1) rest sb)"

definition stringifyParam_array_rs :: "ParamValue \<Rightarrow> error + Builder" where
  "stringifyParam_array_rs param =
     (case Builder_WriteString [] ''['' of
        Inl err \<Rightarrow> Inl err
      | Inr sb1 \<Rightarrow>
     (case stringifyParam_loop_rs (int (length (ArrayVal param))) 0 (ArrayVal param) sb1 of
        Inl err \<Rightarrow> Inl err
      | Inr sb2 \<Rightarrow> Builder_WriteString sb2 '']''))"

definition stringifyParam_rs :: "ParamValue option \<Rightarrow> error + string" where
  "stringifyParam_rs param =
     (case param of
        None \<Rightarrow> Inl (ErrorString ''cannot stringify nil param value'')
      | Some p \<Rightarrow>
          if Type p = ''string'' then Inr (StringVal p)
          else if Type p = ''array'' then
            (case stringifyParam_array_rs p of
               Inl err \<Rightarrow> Inl err
             | Inr sb \<Rightarrow> Inr [])
          else if Type p = ''object'' then Inr ''{}''
          else Inr [])"

definition generateHeader_rs :: "Task \<Rightarrow> Builder \<Rightarrow> error + Builder" where
  "generateHeader_rs t stringBuilder =
     (case Builder_WriteString stringBuilder
             (Sprintf ''# `%v`\<newline>\<newline>'' [Task.Name t]) of
        Inl err \<Rightarrow> Inl err
      | Inr sb \<Rightarrow> Inr sb)"

definition generateDescription_rs :: "Task \<Rightarrow> Builder \<Rightarrow> error + Builder" where
  "generateDescription_rs t stringBuilder =
     (case Builder_WriteString stringBuilder (TaskSpec.Description (Spec t)) of
        Inl err \<Rightarrow> Inl err
      | Inr sb1 \<Rightarrow>
     (case Builder_WriteString sb1 ''\<newline>\<newline>'' of
        Inl err \<Rightarrow> Inl err
      | Inr sb2 \<Rightarrow> Inr sb2))"

fun generateInputs_loop_rs :: "ParamSpec list \<Rightarrow> Builder \<Rightarrow> error + Builder" where
  "generateInputs_loop_rs [] stringBuilder = Inr stringBuilder"
| "generateInputs_loop_rs (param # rest) stringBuilder =
     (case Default param of
        Some d \<Rightarrow>
          (case stringifyParam_rs (Some d) of
             Inl err \<Rightarrow> Inl err
           | Inr paramString \<Rightarrow>
          (case Builder_WriteString stringBuilder
                  (Sprintf ''* **%v**: %v `(Default: %v)`\<newline>''
                     [ParamSpec.Name param, ParamSpec.Description param, paramString]) of
             Inl err \<Rightarrow> Inl err
           | Inr sb \<Rightarrow> generateInputs_loop_rs rest sb))
      | None \<Rightarrow>
          (case Builder_WriteString stringBuilder
                  (Sprintf ''* **%v**: %v\<newline>''
                     [ParamSpec.Name param, ParamSpec.Description param]) of
             Inl err \<Rightarrow> Inl err
           | Inr sb \<Rightarrow> generateInputs_loop_rs rest sb))"

definition generateInputs_rs :: "Task \<Rightarrow> Builder \<Rightarrow> error + Builder" where
  "generateInputs_rs t stringBuilder =
     (case Builder_WriteString stringBuilder ''## Parameters\<newline>'' of
        Inl err \<Rightarrow> Inl err
      | Inr sb1 \<Rightarrow>
     (case generateInputs_loop_rs (Params (Spec t)) sb1 of
        Inl err \<Rightarrow> Inl err
      | Inr sb2 \<Rightarrow>
     (case Builder_WriteString sb2 ''\<newline>'' of
        Inl err \<Rightarrow> Inl err
      | Inr sb3 \<Rightarrow> Inr sb3)))"

fun generateWorkspaces_loop_rs :: "WorkspaceDeclaration list \<Rightarrow> Builder \<Rightarrow> error + Builder" where
  "generateWorkspaces_loop_rs [] stringBuilder = Inr stringBuilder"
| "generateWorkspaces_loop_rs (workspace # rest) stringBuilder =
     (let formatString =
            (if Optional workspace then ''* **%v** (optional): %v\<newline>''
             else ''* **%v**: %v\<newline>'') in
      case Builder_WriteString stringBuilder
             (Sprintf formatString
                [WorkspaceDeclaration.Name workspace,
                 WorkspaceDeclaration.Description workspace]) of
        Inl err \<Rightarrow> Inl err
      | Inr sb \<Rightarrow> generateWorkspaces_loop_rs rest sb)"

definition generateWorkspaces_rs :: "Task \<Rightarrow> Builder \<Rightarrow> error + Builder" where
  "generateWorkspaces_rs t stringBuilder =
     (case Builder_WriteString stringBuilder ''## Workspaces\<newline>'' of
        Inl err \<Rightarrow> Inl err
      | Inr sb1 \<Rightarrow>
     (case generateWorkspaces_loop_rs (Workspaces (Spec t)) sb1 of
        Inl err \<Rightarrow> Inl err
      | Inr sb2 \<Rightarrow>
     (case Builder_WriteString sb2 ''\<newline>'' of
        Inl err \<Rightarrow> Inl err
      | Inr sb3 \<Rightarrow> Inr sb3)))"

fun generateResults_loop_rs :: "TaskResult list \<Rightarrow> Builder \<Rightarrow> error + Builder" where
  "generateResults_loop_rs [] stringBuilder = Inr stringBuilder"
| "generateResults_loop_rs (result # rest) stringBuilder =
     (case Builder_WriteString stringBuilder
             (Sprintf ''* **%v**: %v\<newline>''
                [TaskResult.Name result, TaskResult.Description result]) of
        Inl err \<Rightarrow> Inl err
      | Inr sb \<Rightarrow> generateResults_loop_rs rest sb)"

definition generateResults_rs :: "Task \<Rightarrow> Builder \<Rightarrow> error + Builder" where
  "generateResults_rs t stringBuilder =
     (case Builder_WriteString stringBuilder ''## Results\<newline>'' of
        Inl err \<Rightarrow> Inl err
      | Inr sb1 \<Rightarrow> generateResults_loop_rs (Results (Spec t)) sb1)"

text \<open>Lines 106 to 130 of part_000: the rendering part of the loop body.\<close>

definition GenerateMarkdownToDirectory_render_rs :: "Task \<Rightarrow> error + Builder" where
  "GenerateMarkdownToDirectory_render_rs t =
     (case generateHeader_rs t [] of
        Inl err \<Rightarrow> Inl err
      | Inr sb1 \<Rightarrow>
     (case generateDescription_rs t sb1 of
        Inl err \<Rightarrow> Inl err
      | Inr sb2 \<Rightarrow>
     (case generateInputs_rs t sb2 of
        Inl err \<Rightarrow> Inl err
      | Inr sb3 \<Rightarrow>
     (case generateWorkspaces_rs t sb3 of
        Inl err \<Rightarrow> Inl err
      | Inr sb4 \<Rightarrow>
     (case generateResults_rs t sb4 of
        Inl err \<Rightarrow> Inl err
      | Inr sb5 \<Rightarrow> Inr sb5)))))"

definition writeGenerateMarkdown_rs :: "Task \<Rightarrow> Builder \<Rightarrow> FS \<Rightarrow> error option \<times> FS" where
  "writeGenerateMarkdown_rs t stringBuilder fs =
     (case os_Create (Sprintf ''taskmd.out/%v.md'' [Task.Name t]) fs of
        Inl err \<Rightarrow> (Some err, fs)
      | Inr (file, fs1) \<Rightarrow>
     (case File_WriteString file stringBuilder fs1 of
        Inl err \<Rightarrow> (Some err, fs1)
      | Inr fs2 \<Rightarrow> (None, fs2)))"

fun GenerateMarkdownToDirectory_loop_rs :: "Task list \<Rightarrow> FS \<Rightarrow> error option \<times> FS" where
  "GenerateMarkdownToDirectory_loop_rs [] fs = (None, fs)"
| "GenerateMarkdownToDirectory_loop_rs (t # rest) fs =
     (case GenerateMarkdownToDirectory_render_rs t of
        Inl err \<Rightarrow> (Some err, fs)
      | Inr stringBuilder \<Rightarrow>
     (case writeGenerateMarkdown_rs t stringBuilder fs of
        (Some err, fs1) \<Rightarrow> (Some err, fs1)
      | (None, fs1) \<Rightarrow> GenerateMarkdownToDirectory_loop_rs rest fs1))"

definition GenerateMarkdownToDirectory_rs :: "Task list \<Rightarrow> FS \<Rightarrow> error option \<times> FS" where
  "GenerateMarkdownToDirectory_rs tasks fs =
     (case os_MkdirAll ''taskmd.out'' fs of
        Inl err \<Rightarrow> (Some err, fs)
      | Inr fs1 \<Rightarrow> GenerateMarkdownToDirectory_loop_rs tasks fs1)"

subsection \<open>The layout of the document (spec, section 4.4)\<close>

text \<open>
  The text of one bullet of each list, as the spec lays it out. The theorems below compare
  what the rendering functions write with these. The text of a default is whatever
  \<open>stringifyParam\<close> returns for it.
\<close>

definition default_text :: "ParamValue \<Rightarrow> string" where
  "default_text d = (case stringifyParam (Some d) of Inl err \<Rightarrow> [] | Inr s \<Rightarrow> s)"

definition param_bullet :: "ParamSpec \<Rightarrow> string" where
  "param_bullet p =
     ''* **'' @ ParamSpec.Name p @ ''**: '' @ ParamSpec.Description p @
     (case Default p of
        None \<Rightarrow> []
      | Some d \<Rightarrow> '' `(Default: '' @ default_text d @ '')`'') @ ''\<newline>''"

definition workspace_bullet :: "WorkspaceDeclaration \<Rightarrow> string" where
  "workspace_bullet w =
     ''* **'' @ WorkspaceDeclaration.Name w @ ''**'' @
     (if Optional w then '' (optional)'' else []) @
     '': '' @ WorkspaceDeclaration.Description w @ ''\<newline>''"

definition result_bullet :: "TaskResult \<Rightarrow> string" where
  "result_bullet r =
     ''* **'' @ TaskResult.Name r @ ''**: '' @ TaskResult.Description r @ ''\<newline>''"

subsection \<open>Example inputs\<close>

text \<open>
  Concrete inputs for the closed theorems below: a task named \<^verbatim>\<open>foo\<close> with empty
  lists, a YAML decoder and a JSON decoder that read it from one manifest each, a file
  system that holds the manifest at \<^verbatim>\<open>build.yaml\<close> and at
  \<^verbatim>\<open>taskmd.out/foo/README.md\<close>, and a resource list whose second resource is a Task that
  does not decode and whose third is a ConfigMap.
\<close>

definition example_task :: Task where
  "example_task =
     \<lparr>Task.Name = ''foo'',
      Spec = \<lparr>Params = [], TaskSpec.Description = [], Workspaces = [], Results = []\<rparr>\<rparr>"

definition example_yaml_Unmarshal :: "string \<Rightarrow> error + Task" where
  "example_yaml_Unmarshal bytes =
     (if bytes = ''metadata: {name: foo}'' then Inr example_task
      else Inl (DecodeError ''not a task''))"

definition example_fs :: FS where
  "example_fs =
     \<lparr>files = [[''taskmd.out'', ''foo'', ''README.md''] \<mapsto> ''metadata: {name: foo}'',
               [''build.yaml''] \<mapsto> ''metadata: {name: foo}''],
      dirs = {[''taskmd.out''], [''taskmd.out'', ''foo'']},
      faulty = {},
      nospace = False\<rparr>"

definition example_resources :: "Resource list" where
  \<open>example_resources =
     [\<lparr>GetKind = ''Task'', MarshalJSON = Inr ''{"metadata":{"name":"foo"}}''\<rparr>,
      \<lparr>GetKind = ''Task'', MarshalJSON = Inr ''{"spec":7}''\<rparr>,
      \<lparr>GetKind = ''ConfigMap'', MarshalJSON = Inr ''{}''\<rparr>,
      \<lparr>GetKind = ''Task'', MarshalJSON = Inr ''{"metadata":{"name":"foo"}}''\<rparr>]\<close>

definition example_json_Unmarshal :: "string \<Rightarrow> error + Task" where
  \<open>example_json_Unmarshal bytes =
     (if bytes = ''{"metadata":{"name":"foo"}}'' then Inr example_task
      else Inl (DecodeError ''cannot unmarshal number into Go struct field Task.spec''))\<close>

section \<open>Properties\<close>

subsection \<open>What the rendering functions write\<close>

text \<open>
  \<^verbatim>\<open>WriteString\<close> never fails, so every rendering function returns the builder with its
  text appended. The loop of \<open>stringifyParam\<close> writes the separator after the element
  whose index is \<^verbatim>\<open>len(param.ArrayVal)-1\<close>, the last one.
\<close>

lemma stringifyParam_loop_text:
  "i + int (length xs) = n \<Longrightarrow>
   stringifyParam_loop n i xs sb = Inr (sb @ concat xs @ (if xs = [] then [] else '', ''))"
proof (induction xs arbitrary: i sb)
  case Nil
  then show ?case by simp
next
  case (Cons x xs)
  have last: "(i = n - 1) = (xs = [])"
    using Cons.prems by auto
  have next_i: "(i + 1) + int (length xs) = n"
    using Cons.prems by simp
  show ?case
  proof (cases "xs = []")
    case True
    then show ?thesis
      using last by (simp add: Builder_WriteString_def)
  next
    case False
    then show ?thesis
      using last Cons.IH [OF next_i] by (simp add: Builder_WriteString_def)
  qed
qed

lemma stringifyParam_array_text:
  "stringifyParam_array p =
     Inr (''['' @ concat (ArrayVal p) @ (if ArrayVal p = [] then [] else '', '') @ '']'')"
  using stringifyParam_loop_text [of 0 "ArrayVal p" "int (length (ArrayVal p))" "''[''"]
  by (simp add: stringifyParam_array_def Builder_WriteString_def)

lemma stringifyParam_Some:
  "stringifyParam (Some p) =
     Inr (if Type p = ''string'' then StringVal p
          else if Type p = ''object'' then ''{}'' else [])"
  by (simp add: stringifyParam_def stringifyParam_array_text)

lemma stringifyParam_array_dropped:
  "Type p = ''array'' \<Longrightarrow> stringifyParam (Some p) = Inr []"
  by (simp add: stringifyParam_Some)

lemma generateInputs_loop_text:
  "generateInputs_loop ps sb = Inr (sb @ concat (map param_bullet ps))"
proof (induction ps arbitrary: sb)
  case Nil
  then show ?case by simp
next
  case (Cons p ps)
  show ?case
  proof (cases "Default p")
    case None
    then show ?thesis
      by (simp add: Cons.IH Builder_WriteString_def param_bullet_def)
  next
    case (Some d)
    then show ?thesis
      by (simp add: Cons.IH Builder_WriteString_def param_bullet_def default_text_def
            stringifyParam_Some)
  qed
qed

lemma generateWorkspaces_loop_text:
  "generateWorkspaces_loop ws sb = Inr (sb @ concat (map workspace_bullet ws))"
  by (induction ws arbitrary: sb)
     (simp_all add: Builder_WriteString_def workspace_bullet_def)

lemma generateResults_loop_text:
  "generateResults_loop rs sb = Inr (sb @ concat (map result_bullet rs))"
  by (induction rs arbitrary: sb)
     (simp_all add: Builder_WriteString_def result_bullet_def)

lemma generateHeader_text:
  "generateHeader b sb = Inr (sb @ ''# `'' @ Task.Name (task b) @ ''`\<newline>\<newline>'')"
  by (simp add: generateHeader_def Builder_WriteString_def)

lemma generateDescription_text:
  "generateDescription b sb =
     Inr (sb @ TaskSpec.Description (Spec (task b)) @ ''\<newline>\<newline>'')"
  by (simp add: generateDescription_def Builder_WriteString_def)

lemma generateInputs_text:
  "generateInputs b sb =
     Inr (sb @ ''## Parameters\<newline>'' @
          concat (map param_bullet (Params (Spec (task b)))) @ ''\<newline>'')"
  by (simp add: generateInputs_def Builder_WriteString_def generateInputs_loop_text)

lemma generateWorkspaces_text:
  "generateWorkspaces b sb =
     Inr (sb @ ''## Workspaces\<newline>'' @
          concat (map workspace_bullet (Workspaces (Spec (task b)))) @ ''\<newline>'')"
  by (simp add: generateWorkspaces_def Builder_WriteString_def generateWorkspaces_loop_text)

lemma generateResults_text:
  "generateResults b sb =
     Inr (sb @ ''## Results\<newline>'' @
          concat (map result_bullet (Results (Spec (task b)))))"
  by (simp add: generateResults_def Builder_WriteString_def generateResults_loop_text)

lemma render_text:
  "GenerateMarkdownToDirectory_render b =
     Inr ((''# `'' @ Task.Name (task b) @ ''`\<newline>\<newline>'') @
          (TaskSpec.Description (Spec (task b)) @ ''\<newline>\<newline>'') @
          (''## Parameters\<newline>'' @
             concat (map param_bullet (Params (Spec (task b)))) @ ''\<newline>'') @
          (''## Workspaces\<newline>'' @
             concat (map workspace_bullet (Workspaces (Spec (task b)))) @ ''\<newline>'') @
          (''## Results\<newline>'' @
             concat (map result_bullet (Results (Spec (task b))))))"
  unfolding GenerateMarkdownToDirectory_render_def
  by (simp only: generateHeader_text generateDescription_text generateInputs_text
        generateWorkspaces_text generateResults_text sum.case append_Nil append_assoc)

subsection \<open>The two copies of the rendering functions agree\<close>

lemma stringifyParam_loop_rs_eq:
  "stringifyParam_loop_rs n i xs sb = stringifyParam_loop n i xs sb"
  by (induction xs arbitrary: i sb) (simp_all add: Builder_WriteString_def)

lemma stringifyParam_rs_eq: "stringifyParam_rs param = stringifyParam param"
  by (simp add: stringifyParam_rs_def stringifyParam_def stringifyParam_array_rs_def
        stringifyParam_array_def stringifyParam_loop_rs_eq
      cong: option.case_cong sum.case_cong if_cong)

lemma generateInputs_loop_rs_eq:
  "generateInputs_loop_rs ps sb = generateInputs_loop ps sb"
  by (induction ps arbitrary: sb)
     (simp_all add: stringifyParam_rs_eq Builder_WriteString_def
        cong: option.case_cong sum.case_cong)

lemma generateWorkspaces_loop_rs_eq:
  "generateWorkspaces_loop_rs ws sb = generateWorkspaces_loop ws sb"
  by (induction ws arbitrary: sb) (simp_all add: Builder_WriteString_def)

lemma generateResults_loop_rs_eq:
  "generateResults_loop_rs rs sb = generateResults_loop rs sb"
  by (induction rs arbitrary: sb) (simp_all add: Builder_WriteString_def)

lemma generateHeader_rs_eq: "generateHeader_rs (task b) sb = generateHeader b sb"
  by (simp add: generateHeader_rs_def generateHeader_def)

lemma generateDescription_rs_eq: "generateDescription_rs (task b) sb = generateDescription b sb"
  by (simp add: generateDescription_rs_def generateDescription_def)

lemma generateInputs_rs_eq: "generateInputs_rs (task b) sb = generateInputs b sb"
  by (simp add: generateInputs_rs_def generateInputs_def generateInputs_loop_rs_eq
      cong: sum.case_cong)

lemma generateWorkspaces_rs_eq: "generateWorkspaces_rs (task b) sb = generateWorkspaces b sb"
  by (simp add: generateWorkspaces_rs_def generateWorkspaces_def generateWorkspaces_loop_rs_eq
      cong: sum.case_cong)

lemma generateResults_rs_eq: "generateResults_rs (task b) sb = generateResults b sb"
  by (simp add: generateResults_rs_def generateResults_def generateResults_loop_rs_eq
      cong: sum.case_cong)

lemma render_rs_eq:
  "GenerateMarkdownToDirectory_render_rs (task b) = GenerateMarkdownToDirectory_render b"
  by (simp add: GenerateMarkdownToDirectory_render_rs_def GenerateMarkdownToDirectory_render_def
        generateHeader_rs_eq generateDescription_rs_eq generateInputs_rs_eq
        generateWorkspaces_rs_eq generateResults_rs_eq
      cong: sum.case_cong)


subsection \<open>The claims about rendering\<close>

text \<open>
  Claim C1. For every task, also one whose parameters, workspaces or results are empty,
  the rendered document is the header, the description, the Parameters section, the
  Workspaces section and the Results section, in this order and nothing else. Each of the
  three headings is written whatever the length of its list: the bullets of an empty list
  are the empty text, and the heading stays.
\<close>

theorem C1_document_sections:
  "GenerateMarkdownToDirectory_render taskBundle =
     Inr ((''# `'' @ Task.Name (task taskBundle) @ ''`\<newline>\<newline>'') @
          (TaskSpec.Description (Spec (task taskBundle)) @ ''\<newline>\<newline>'') @
          (''## Parameters\<newline>'' @
             concat (map param_bullet (Params (Spec (task taskBundle)))) @ ''\<newline>'') @
          (''## Workspaces\<newline>'' @
             concat (map workspace_bullet (Workspaces (Spec (task taskBundle)))) @ ''\<newline>'') @
          (''## Results\<newline>'' @
             concat (map result_bullet (Results (Spec (task taskBundle))))))
   \<and> (Params (Spec (task taskBundle)) = [] \<and> Workspaces (Spec (task taskBundle)) = []
        \<and> Results (Spec (task taskBundle)) = [] \<longrightarrow>
      GenerateMarkdownToDirectory_render taskBundle =
        Inr ((''# `'' @ Task.Name (task taskBundle) @ ''`\<newline>\<newline>'') @
             (TaskSpec.Description (Spec (task taskBundle)) @ ''\<newline>\<newline>'') @
             ''## Parameters\<newline>\<newline>'' @ ''## Workspaces\<newline>\<newline>'' @ ''## Results\<newline>''))"
proof -
  have empty: "concat (map f []) = []" for f :: "'a \<Rightarrow> string"
    by simp
  show ?thesis
    by (simp only: render_text) (simp add: empty)
qed

theorem C1_document_sections_witness:
  "GenerateMarkdownToDirectory_render
     \<lparr>path = ''build.yaml'',
      task = \<lparr>Task.Name = ''build'',
               Spec = \<lparr>Params = [], TaskSpec.Description = ''Builds the app.'',
                        Workspaces = [], Results = []\<rparr>\<rparr>\<rparr> =
   Inr (''# `build`\<newline>\<newline>'' @ ''Builds the app.\<newline>\<newline>'' @
        ''## Parameters\<newline>\<newline>'' @ ''## Workspaces\<newline>\<newline>'' @
        ''## Results\<newline>'')"
  using C1_document_sections
    [of "\<lparr>path = ''build.yaml'',
      task = \<lparr>Task.Name = ''build'',
               Spec = \<lparr>Params = [], TaskSpec.Description = ''Builds the app.'',
                        Workspaces = [], Results = []\<rparr>\<rparr>\<rparr>"]
  by simp

text \<open>
  Claim C2. The claim says that \<open>stringifyParam\<close> returns the bracketed rendering of an
  array default. The \<^verbatim>\<open>"array"\<close> case builds that text, \<^verbatim>\<open>[ab, ]\<close> for the items
  \<^verbatim>\<open>a\<close> and \<^verbatim>\<open>b\<close>, in a local builder, and never returns it: the function returns
  the empty string, in both source files.
\<close>

theorem C2_array_default_is_dropped:
  "stringifyParam_array
     \<lparr>Type = ''array'', StringVal = [], ArrayVal = [''a'', ''b''], ObjectVal = Map.empty\<rparr> =
     Inr ''[ab, ]'' \<and>
   stringifyParam
     (Some \<lparr>Type = ''array'', StringVal = [], ArrayVal = [''a'', ''b''], ObjectVal = Map.empty\<rparr>) =
     Inr [] \<and>
   stringifyParam_rs
     (Some \<lparr>Type = ''array'', StringVal = [], ArrayVal = [''a'', ''b''], ObjectVal = Map.empty\<rparr>) =
     Inr []"
  by (simp add: stringifyParam_def stringifyParam_array_def stringifyParam_rs_def
        stringifyParam_array_rs_def Builder_WriteString_def)

text \<open>
  Claim C3. In the Parameters section, a parameter without a default is the bullet
  \<^verbatim>\<open>* **<name>**: <description>\<close> and nothing more on its line, and a parameter whose
  default is the string \<open>x\<close> is that bullet followed, on the same line, by
  \<^verbatim>\<open> `(Default: x)`\<close>. The parameter stands anywhere in the list; the bullets before and
  after it are those of the other parameters.
\<close>

theorem C3_parameter_bullet:
  assumes "Params (Spec (task taskBundle)) = before @ param # after"
  shows "(Default param = None \<longrightarrow>
            generateInputs taskBundle stringBuilder =
              Inr (stringBuilder @ ''## Parameters\<newline>'' @
                   concat (map param_bullet before) @
                   (''* **'' @ ParamSpec.Name param @ ''**: '' @
                      ParamSpec.Description param @ ''\<newline>'') @
                   concat (map param_bullet after) @ ''\<newline>''))
       \<and> (\<forall>d x. Default param = Some d \<and> Type d = ''string'' \<and> StringVal d = x \<longrightarrow>
            generateInputs taskBundle stringBuilder =
              Inr (stringBuilder @ ''## Parameters\<newline>'' @
                   concat (map param_bullet before) @
                   (''* **'' @ ParamSpec.Name param @ ''**: '' @
                      ParamSpec.Description param @ '' `(Default: '' @ x @ '')`\<newline>'') @
                   concat (map param_bullet after) @ ''\<newline>''))"
  using assms
  by (simp add: generateInputs_text param_bullet_def default_text_def stringifyParam_Some)

theorem C3_parameter_bullet_witness:
  "generateInputs
     \<lparr>path = ''build.yaml'',
      task = \<lparr>Task.Name = ''build'',
               Spec = \<lparr>Params = [\<lparr>ParamSpec.Name = ''image'', ParamSpec.Description = ''the image'',
                                    Default = None\<rparr>],
                        TaskSpec.Description = [], Workspaces = [], Results = []\<rparr>\<rparr>\<rparr> []
     = Inr (''## Parameters\<newline>'' @ ''* **image**: the image\<newline>'' @ ''\<newline>'')
   \<and> generateInputs
     \<lparr>path = ''build.yaml'',
      task = \<lparr>Task.Name = ''build'',
               Spec = \<lparr>Params = [\<lparr>ParamSpec.Name = ''tag'', ParamSpec.Description = ''the tag'',
                                    Default = Some \<lparr>Type = ''string'', StringVal = ''x'',
                                                    ArrayVal = [], ObjectVal = Map.empty\<rparr>\<rparr>],
                        TaskSpec.Description = [], Workspaces = [], Results = []\<rparr>\<rparr>\<rparr> []
     = Inr (''## Parameters\<newline>'' @ ''* **tag**: the tag `(Default: x)`\<newline>'' @ ''\<newline>'')"
  using C3_parameter_bullet
    [of "\<lparr>path = ''build.yaml'',
      task = \<lparr>Task.Name = ''build'',
               Spec = \<lparr>Params = [\<lparr>ParamSpec.Name = ''image'', ParamSpec.Description = ''the image'',
                                    Default = None\<rparr>],
                        TaskSpec.Description = [], Workspaces = [], Results = []\<rparr>\<rparr>\<rparr>"
        "[]" "\<lparr>ParamSpec.Name = ''image'', ParamSpec.Description = ''the image'',
                                    Default = None\<rparr>" "[]" "[]"]
    C3_parameter_bullet
    [of "\<lparr>path = ''build.yaml'',
      task = \<lparr>Task.Name = ''build'',
               Spec = \<lparr>Params = [\<lparr>ParamSpec.Name = ''tag'', ParamSpec.Description = ''the tag'',
                                    Default = Some \<lparr>Type = ''string'', StringVal = ''x'',
                                                    ArrayVal = [], ObjectVal = Map.empty\<rparr>\<rparr>],
                        TaskSpec.Description = [], Workspaces = [], Results = []\<rparr>\<rparr>\<rparr>"
        "[]" "\<lparr>ParamSpec.Name = ''tag'', ParamSpec.Description = ''the tag'',
                                    Default = Some \<lparr>Type = ''string'', StringVal = ''x'',
                                                    ArrayVal = [], ObjectVal = Map.empty\<rparr>\<rparr>" "[]" "[]"]
  by simp

text \<open>
  Claim C4. In the Workspaces section, an optional workspace is the bullet
  \<^verbatim>\<open>* **<name>** (optional): <description>\<close>, with \<^verbatim>\<open> (optional)\<close> right after the
  bold name, and a workspace that is not optional is the bullet
  \<^verbatim>\<open>* **<name>**: <description>\<close>.
\<close>

theorem C4_workspace_bullet:
  assumes "Workspaces (Spec (task taskBundle)) = before @ workspace # after"
  shows "(Optional workspace \<longrightarrow>
            generateWorkspaces taskBundle stringBuilder =
              Inr (stringBuilder @ ''## Workspaces\<newline>'' @
                   concat (map workspace_bullet before) @
                   (''* **'' @ WorkspaceDeclaration.Name workspace @ ''** (optional): '' @
                      WorkspaceDeclaration.Description workspace @ ''\<newline>'') @
                   concat (map workspace_bullet after) @ ''\<newline>''))
       \<and> (\<not> Optional workspace \<longrightarrow>
            generateWorkspaces taskBundle stringBuilder =
              Inr (stringBuilder @ ''## Workspaces\<newline>'' @
                   concat (map workspace_bullet before) @
                   (''* **'' @ WorkspaceDeclaration.Name workspace @ ''**: '' @
                      WorkspaceDeclaration.Description workspace @ ''\<newline>'') @
                   concat (map workspace_bullet after) @ ''\<newline>''))"
  using assms by (simp add: generateWorkspaces_text workspace_bullet_def)

theorem C4_workspace_bullet_witness:
  "generateWorkspaces
     \<lparr>path = ''build.yaml'',
      task = \<lparr>Task.Name = ''build'',
               Spec = \<lparr>Params = [], TaskSpec.Description = [],
                        Workspaces = [\<lparr>WorkspaceDeclaration.Name = ''source'',
                                        WorkspaceDeclaration.Description = ''the sources'',
                                        Optional = True\<rparr>],
                        Results = []\<rparr>\<rparr>\<rparr> []
     = Inr (''## Workspaces\<newline>'' @ ''* **source** (optional): the sources\<newline>'' @
            ''\<newline>'')
   \<and> generateWorkspaces
     \<lparr>path = ''build.yaml'',
      task = \<lparr>Task.Name = ''build'',
               Spec = \<lparr>Params = [], TaskSpec.Description = [],
                        Workspaces = [\<lparr>WorkspaceDeclaration.Name = ''cache'',
                                        WorkspaceDeclaration.Description = ''the cache'',
                                        Optional = False\<rparr>],
                        Results = []\<rparr>\<rparr>\<rparr> []
     = Inr (''## Workspaces\<newline>'' @ ''* **cache**: the cache\<newline>'' @ ''\<newline>'')"
  using C4_workspace_bullet
    [of "\<lparr>path = ''build.yaml'',
      task = \<lparr>Task.Name = ''build'',
               Spec = \<lparr>Params = [], TaskSpec.Description = [],
                        Workspaces = [\<lparr>WorkspaceDeclaration.Name = ''source'',
                                        WorkspaceDeclaration.Description = ''the sources'',
                                        Optional = True\<rparr>],
                        Results = []\<rparr>\<rparr>\<rparr>"
        "[]" "\<lparr>WorkspaceDeclaration.Name = ''source'',
               WorkspaceDeclaration.Description = ''the sources'', Optional = True\<rparr>" "[]" "[]"]
    C4_workspace_bullet
    [of "\<lparr>path = ''build.yaml'',
      task = \<lparr>Task.Name = ''build'',
               Spec = \<lparr>Params = [], TaskSpec.Description = [],
                        Workspaces = [\<lparr>WorkspaceDeclaration.Name = ''cache'',
                                        WorkspaceDeclaration.Description = ''the cache'',
                                        Optional = False\<rparr>],
                        Results = []\<rparr>\<rparr>\<rparr>"
        "[]" "\<lparr>WorkspaceDeclaration.Name = ''cache'',
               WorkspaceDeclaration.Description = ''the cache'', Optional = False\<rparr>" "[]" "[]"]
  by simp

text \<open>
  Claim C5. For every default whose type is \<^verbatim>\<open>object\<close>, whatever its mapping holds,
  \<open>stringifyParam\<close> returns exactly the two characters \<^verbatim>\<open>{}\<close>, in both source files.
\<close>

theorem C5_object_default:
  "Type param = ''object'' \<Longrightarrow>
     stringifyParam (Some param) = Inr ''{}'' \<and> stringifyParam_rs (Some param) = Inr ''{}''"
  by (simp add: stringifyParam_rs_eq stringifyParam_Some)

theorem C5_object_default_witness:
  "stringifyParam
     (Some \<lparr>Type = ''object'', StringVal = [], ArrayVal = [], ObjectVal = [''a'' \<mapsto> ''b'']\<rparr>)
     = Inr ''{}''
   \<and> stringifyParam_rs
     (Some \<lparr>Type = ''object'', StringVal = [], ArrayVal = [], ObjectVal = [''a'' \<mapsto> ''b'']\<rparr>)
     = Inr ''{}''"
  using C5_object_default
    [of "\<lparr>Type = ''object'', StringVal = [], ArrayVal = [], ObjectVal = [''a'' \<mapsto> ''b'']\<rparr>"]
  by simp

text \<open>
  Claim C9. For every task, the rendering functions of the file-based pipeline produce
  the text that the rendering functions of the resource-set pipeline produce: the whole
  document, each of the five functions from any builder, and \<open>stringifyParam\<close>.
\<close>

theorem C9_same_rendering:
  "GenerateMarkdownToDirectory_render taskBundle =
     GenerateMarkdownToDirectory_render_rs (task taskBundle)
   \<and> generateHeader taskBundle stringBuilder = generateHeader_rs (task taskBundle) stringBuilder
   \<and> generateDescription taskBundle stringBuilder =
       generateDescription_rs (task taskBundle) stringBuilder
   \<and> generateInputs taskBundle stringBuilder = generateInputs_rs (task taskBundle) stringBuilder
   \<and> generateWorkspaces taskBundle stringBuilder =
       generateWorkspaces_rs (task taskBundle) stringBuilder
   \<and> generateResults taskBundle stringBuilder = generateResults_rs (task taskBundle) stringBuilder
   \<and> stringifyParam param = stringifyParam_rs param"
  by (simp only: render_rs_eq generateHeader_rs_eq generateDescription_rs_eq generateInputs_rs_eq
        generateWorkspaces_rs_eq generateResults_rs_eq stringifyParam_rs_eq simp_thms)

theorem C9_same_rendering_witness:
  "GenerateMarkdownToDirectory_render_rs
     \<lparr>Task.Name = ''build'',
      Spec = \<lparr>Params = [], TaskSpec.Description = ''Builds the app.'',
               Workspaces = [], Results = []\<rparr>\<rparr> =
   Inr (''# `build`\<newline>\<newline>'' @ ''Builds the app.\<newline>\<newline>'' @
        ''## Parameters\<newline>\<newline>'' @ ''## Workspaces\<newline>\<newline>'' @
        ''## Results\<newline>'')"
  using C9_same_rendering
    [of "\<lparr>path = ''build.yaml'',
      task = \<lparr>Task.Name = ''build'',
               Spec = \<lparr>Params = [], TaskSpec.Description = ''Builds the app.'',
                        Workspaces = [], Results = []\<rparr>\<rparr>\<rparr>" "[]" None]
  by (simp add: render_text)

text \<open>
  Claim C10. The error \<^verbatim>\<open>cannot stringify nil param value\<close> is returned by
  \<open>stringifyParam\<close> for the nil pointer and for nothing else, and \<open>generateInputs\<close>
  calls \<open>stringifyParam\<close> on defaults that are not nil only: for every task and every
  builder \<open>generateInputs\<close> returns without an error.
\<close>

theorem C10_nil_branch_unreachable:
  "(\<exists>out. generateInputs taskBundle stringBuilder = Inr out)
   \<and> (stringifyParam param = Inl (ErrorString ''cannot stringify nil param value'')) = (param = None)
   \<and> (\<exists>s. stringifyParam (Some d) = Inr s)"
proof -
  have renders: "\<exists>out. generateInputs taskBundle stringBuilder = Inr out"
    by (simp add: generateInputs_text)
  have nil_only:
    "(stringifyParam param = Inl (ErrorString ''cannot stringify nil param value''))
       = (param = None)"
  proof (cases param)
    case None
    then show ?thesis by (simp add: stringifyParam_def)
  next
    case (Some p)
    then show ?thesis by (simp add: stringifyParam_Some)
  qed
  have not_nil: "\<exists>s. stringifyParam (Some d) = Inr s"
    by (simp add: stringifyParam_Some)
  from renders nil_only not_nil show ?thesis by blast
qed

theorem C10_nil_branch_unreachable_witness:
  "(\<exists>out. generateInputs
     \<lparr>path = ''build.yaml'',
      task = \<lparr>Task.Name = ''build'',
               Spec = \<lparr>Params = [\<lparr>ParamSpec.Name = ''image'', ParamSpec.Description = [],
                                    Default = None\<rparr>],
                        TaskSpec.Description = [], Workspaces = [], Results = []\<rparr>\<rparr>\<rparr> [] = Inr out)
   \<and> stringifyParam None = Inl (ErrorString ''cannot stringify nil param value'')"
  using C10_nil_branch_unreachable
    [of "\<lparr>path = ''build.yaml'',
      task = \<lparr>Task.Name = ''build'',
               Spec = \<lparr>Params = [\<lparr>ParamSpec.Name = ''image'', ParamSpec.Description = [],
                                    Default = None\<rparr>],
                        TaskSpec.Description = [], Workspaces = [], Results = []\<rparr>\<rparr>\<rparr>" "[]" None]
  by simp

subsection \<open>The resource scan\<close>

lemma GetAllTasksFromResourceMap_loop_stop:
  "\<forall>r \<in> set pre. GetKind r = ''Task'' \<Longrightarrow>
   map (ResourceToType um) pre = map Inr ts \<Longrightarrow> GetKind res \<noteq> ''Task'' \<Longrightarrow>
   GetAllTasksFromResourceMap_loop um (pre @ res # post) acc = (acc @ ts, None)"
proof (induction pre arbitrary: ts acc)
  case Nil
  then show ?case by simp
next
  case (Cons r pre)
  from Cons.prems(2) obtain t ts' where ts: "ts = t # ts'"
    and dec: "ResourceToType um r = Inr t" and rest: "map (ResourceToType um) pre = map Inr ts'"
    by (cases ts) auto
  have kinds: "\<forall>r \<in> set pre. GetKind r = ''Task''" and kind: "GetKind r = ''Task''"
    using Cons.prems(1) by simp_all
  show ?case
    using Cons.IH [OF kinds rest Cons.prems(3)] by (simp add: kind dec ts)
qed

text \<open>
  Claim C6, amended. For every resource list in which each resource before the first one
  whose kind is not \<^verbatim>\<open>Task\<close> has kind \<^verbatim>\<open>Task\<close> and decodes: the scan of
  \<open>GetAllTasksFromResourceMap\<close> stops at that first resource of another kind and returns,
  without an error, exactly the tasks decoded from the resources before it, in their order.
  It does not skip the resource and go on: nothing of the resources after it is returned.
\<close>

theorem C6_scan_stops_at_first_other_kind:
  assumes "\<forall>r \<in> set before. GetKind r = ''Task''"
    and "GetKind res \<noteq> ''Task''"
    and "map (ResourceToType json_Unmarshal) before = map Inr decoded"
  shows "GetAllTasksFromResourceMap json_Unmarshal (before @ res # after) = (decoded, None)"
  unfolding GetAllTasksFromResourceMap_def
  using GetAllTasksFromResourceMap_loop_stop [OF assms(1) assms(3) assms(2), of after "[]"]
  by simp

theorem C6_scan_stops_at_first_other_kind_witness:
  "GetAllTasksFromResourceMap example_json_Unmarshal
     [example_resources ! 0, example_resources ! 2, example_resources ! 3] =
   ([example_task], None)"
proof -
  have kinds: "\<forall>r \<in> set [example_resources ! 0]. GetKind r = ''Task''"
    by (simp add: example_resources_def)
  have other: "GetKind (example_resources ! 2) \<noteq> ''Task''"
    by (simp add: example_resources_def)
  have decoded: "map (ResourceToType example_json_Unmarshal) [example_resources ! 0] =
                   map Inr [example_task]"
    by (simp add: example_resources_def ResourceToType_def example_json_Unmarshal_def)
  show ?thesis
    using C6_scan_stops_at_first_other_kind [OF kinds other decoded, of "[example_resources ! 3]"]
    by simp
qed

text \<open>
  The claim as stated, for every resource list, fails. In \<open>example_resources\<close> the first
  resource whose kind is not \<^verbatim>\<open>Task\<close> is the third. The second, a \<^verbatim>\<open>Task\<close>, does not
  decode: the scan stops there, before the third, and returns the error beside the one
  task decoded so far.
\<close>

theorem C6_counterexample:
  "GetKind (example_resources ! 2) \<noteq> ''Task''
   \<and> GetKind (example_resources ! 0) = ''Task'' \<and> GetKind (example_resources ! 1) = ''Task''
   \<and> GetAllTasksFromResourceMap example_json_Unmarshal example_resources =
       ([example_task],
        Some (DecodeError ''cannot unmarshal number into Go struct field Task.spec''))"
  by (simp add: example_resources_def GetAllTasksFromResourceMap_def ResourceToType_def
        example_json_Unmarshal_def)

subsection \<open>Loading the manifests\<close>

lemma LoadAllTasks_loop_ok:
  "map (os_ReadFile fs) paths = map Inr bs \<Longrightarrow> map um bs = map Inr ts \<Longrightarrow>
   LoadAllTasks_loop um fs paths acc =
     (Some (acc @ map2 (\<lambda>p t. \<lparr>path = p, task = t\<rparr>) paths ts), None)"
proof (induction paths arbitrary: bs ts acc)
  case Nil
  then show ?case by simp
next
  case (Cons p paths)
  from Cons.prems(1) obtain b bs' where bs: "bs = b # bs'"
    and rd: "os_ReadFile fs p = Inr b" and rest: "map (os_ReadFile fs) paths = map Inr bs'"
    by (cases bs) auto
  from Cons.prems(2) bs obtain t ts' where ts: "ts = t # ts'"
    and dec: "um b = Inr t" and rest': "map um bs' = map Inr ts'"
    by (cases ts) auto
  show ?case
    using Cons.IH [OF rest rest'] by (simp add: rd dec ts)
qed

lemma LoadAllTasks_loop_fail:
  "map (os_ReadFile fs) pre = map Inr bs \<Longrightarrow> map um bs = map Inr ts \<Longrightarrow>
   os_ReadFile fs p = Inl e \<or> (\<exists>b. os_ReadFile fs p = Inr b \<and> um b = Inl e) \<Longrightarrow>
   LoadAllTasks_loop um fs (pre @ p # post) acc = (None, Some e)"
proof (induction pre arbitrary: bs ts acc)
  case Nil
  then show ?case by auto
next
  case (Cons q pre)
  from Cons.prems(1) obtain b bs' where bs: "bs = b # bs'"
    and rd: "os_ReadFile fs q = Inr b" and rest: "map (os_ReadFile fs) pre = map Inr bs'"
    by (cases bs) auto
  from Cons.prems(2) bs obtain t ts' where ts: "ts = t # ts'"
    and dec: "um b = Inr t" and rest': "map um bs' = map Inr ts'"
    by (cases ts) auto
  show ?case
    using Cons.IH [OF rest rest' Cons.prems(3)] by (simp add: rd dec)
qed

text \<open>
  Claim C7. For every list of paths: if every path is read (\<open>contents\<close>) and every
  content decodes (\<open>decoded\<close>), \<open>LoadAllTasks\<close> returns one bundle for each path, in the
  order of the paths, each pairing the path with the task decoded from it, and no error.
  If a path fails to be read or to decode, and the paths before it do not, the load
  returns the error of that path and the nil slice: no bundle of the paths before it.
\<close>

theorem C7_load_all_or_nothing:
  "(map (os_ReadFile fs) paths = map Inr contents \<and> map yaml_Unmarshal contents = map Inr decoded
      \<longrightarrow> LoadAllTasks yaml_Unmarshal fs paths =
            (Some (map2 (\<lambda>p t. \<lparr>path = p, task = t\<rparr>) paths decoded), None))
   \<and> (paths = before @ p # after
        \<and> map (os_ReadFile fs) before = map Inr contents
        \<and> map yaml_Unmarshal contents = map Inr decoded
        \<and> (os_ReadFile fs p = Inl err
             \<or> (\<exists>bytes. os_ReadFile fs p = Inr bytes \<and> yaml_Unmarshal bytes = Inl err))
      \<longrightarrow> LoadAllTasks yaml_Unmarshal fs paths = (None, Some err))"
  unfolding LoadAllTasks_def
  using LoadAllTasks_loop_ok [of fs paths contents yaml_Unmarshal decoded "[]"]
    LoadAllTasks_loop_fail [of fs before contents yaml_Unmarshal decoded p err after "[]"]
  by auto

theorem C7_load_all_or_nothing_witness:
  "LoadAllTasks example_yaml_Unmarshal example_fs [''build.yaml'', ''taskmd.out/foo/README.md''] =
     (Some [\<lparr>path = ''build.yaml'', task = example_task\<rparr>,
            \<lparr>path = ''taskmd.out/foo/README.md'', task = example_task\<rparr>], None)
   \<and> LoadAllTasks example_yaml_Unmarshal example_fs [''build.yaml'', ''missing.yaml'', ''build.yaml''] =
     (None, Some (PathError ''open'' ''missing.yaml''))"
proof -
  have k1: "path_key ''taskmd.out/foo/README.md'' = [''taskmd.out'', ''foo'', ''README.md'']"
    and k2: "path_key ''build.yaml'' = [''build.yaml'']"
    and k3: "path_key ''missing.yaml'' = [''missing.yaml'']"
    by (simp_all add: path_key_def clean_step_def)
  have r1: "os_ReadFile example_fs ''build.yaml'' = Inr ''metadata: {name: foo}''"
    and r2: "os_ReadFile example_fs ''taskmd.out/foo/README.md'' = Inr ''metadata: {name: foo}''"
    and r3: "os_ReadFile example_fs ''missing.yaml'' = Inl (PathError ''open'' ''missing.yaml'')"
    by (simp_all add: os_ReadFile_def k1 k2 k3 example_fs_def)
  have d: "example_yaml_Unmarshal ''metadata: {name: foo}'' = Inr example_task"
    by (simp add: example_yaml_Unmarshal_def)
  have all_read: "map (os_ReadFile example_fs) [''build.yaml'', ''taskmd.out/foo/README.md''] =
                    map Inr [''metadata: {name: foo}'', ''metadata: {name: foo}'']"
    by (simp add: r1 r2)
  have all_decoded: "map example_yaml_Unmarshal [''metadata: {name: foo}'', ''metadata: {name: foo}''] =
                       map Inr [example_task, example_task]"
    by (simp add: d)
  have some_read: "map (os_ReadFile example_fs) [''build.yaml''] = map Inr [''metadata: {name: foo}'']"
    by (simp add: r1)
  have some_decoded: "map example_yaml_Unmarshal [''metadata: {name: foo}''] = map Inr [example_task]"
    by (simp add: d)
  show ?thesis
    using C7_load_all_or_nothing
            [of example_fs "[''build.yaml'', ''taskmd.out/foo/README.md'']"
                "[''metadata: {name: foo}'', ''metadata: {name: foo}'']"
                example_yaml_Unmarshal "[example_task, example_task]"]
          C7_load_all_or_nothing
            [of example_fs "[''build.yaml'', ''missing.yaml'', ''build.yaml'']"
                "[''metadata: {name: foo}'']"
                example_yaml_Unmarshal "[example_task]" "[''build.yaml'']" "''missing.yaml''"
                "[''build.yaml'']" "PathError ''open'' ''missing.yaml''"]
          all_read all_decoded some_read some_decoded r3
    by simp
qed

subsection \<open>Writing the document and the copy of the manifest\<close>

lemma path_key_examples:
  "path_key ''taskmd.out/foo/README.md'' = [''taskmd.out'', ''foo'', ''README.md'']"
  "path_key ''a/./b//../c/'' = [''a'', ''c'']"
  "path_key ''/../x'' = [''/'', ''x'']"
  "path_key ''../x'' = [''..'', ''x'']"
  by (simp_all add: path_key_def clean_step_def)

lemma basename_examples:
  "basename ''a/b/build.yaml'' = ''build.yaml''"
  "basename ''build.yaml'' = ''build.yaml''"
  "basename ''a/b/'' = ''b''"
  "basename ''/'' = ''/''"
  by (simp_all add: basename_def)












end
